theory Spec2Isabelle
  imports Main "HOL-Library.AList" "HOL-Library.Sublist"
begin

section \<open>Project-view constants (projectViews/constants.ts)\<close>

text \<open>
  The two registries are object literals keyed by string. Each is embedded as an
  association list in the order of the literal, so that the key of an entry and
  the \<open>name\<close> property stored inside it stay two separate pieces of data;
  \<open>map_of\<close> is the property read \<open>TABLE[key]\<close>. The translation function
  \<open>t\<close> comes from outside the repository and is a parameter of both tables.
\<close>

record Named =
  name :: string
  label :: string

record FilterConditionDefinition = Named +
  requiresValue :: bool
  filterQuery :: string

definition FILTER_CONDITIONS ::
  "(string \<Rightarrow> string) \<Rightarrow> (string \<times> FilterConditionDefinition) list" where
  "FILTER_CONDITIONS t =
    [(''is'', \<lparr>name = ''is'', label = t ''Is'',
        requiresValue = True, filterQuery = ''<field>__iexact:<term>''\<rparr>),
     (''isNot'', \<lparr>name = ''isNot'', label = t ''Is not'',
        requiresValue = True, filterQuery = ''NOT <field>__iexact:<term>''\<rparr>),
     (''contains'', \<lparr>name = ''contains'', label = t ''Contains'',
        requiresValue = True, filterQuery = ''<field>__icontains:<term>''\<rparr>),
     (''doesNotContain'', \<lparr>name = ''doesNotContain'', label = t ''Does not contain'',
        requiresValue = True, filterQuery = ''NOT <field>__icontains:<term>''\<rparr>),
     (''startsWith'', \<lparr>name = ''startsWith'', label = t ''Starts with'',
        requiresValue = True, filterQuery = ''<field>__istartswith:<term>''\<rparr>),
     (''endsWith'', \<lparr>name = ''endsWith'', label = t ''Ends with'',
        requiresValue = True, filterQuery = ''<field>__iendswith:<term>''\<rparr>),
     (''isEmpty'', \<lparr>name = ''isEmpty'', label = t ''Is empty'',
        requiresValue = False, filterQuery = ''<field>:\"\"''\<rparr>),
     (''isNotEmpty'', \<lparr>name = ''isNotEmpty'', label = t ''Is not empty'',
        requiresValue = False, filterQuery = ''NOT <field>:\"\"''\<rparr>)]"

record ProjectFieldDefinition = Named +
  apiPropertyName :: string
  filterable :: bool
  orderable :: bool

definition PROJECT_FIELDS ::
  "(string \<Rightarrow> string) \<Rightarrow> (string \<times> ProjectFieldDefinition) list" where
  "PROJECT_FIELDS t =
    [(''name'', \<lparr>name = ''name'', label = t ''Project name'',
        apiPropertyName = ''name'', filterable = True, orderable = True\<rparr>),
     (''description'', \<lparr>name = ''description'', label = t ''Description'',
        apiPropertyName = ''settings__description'', filterable = True, orderable = True\<rparr>),
     (''status'', \<lparr>name = ''status'', label = t ''Status'',
        apiPropertyName = ''_deployment_data'', filterable = True, orderable = True\<rparr>),
     (''ownerUsername'', \<lparr>name = ''ownerUsername'', label = t ''Owner username'',
        apiPropertyName = ''owner__username'', filterable = True, orderable = True\<rparr>),
     (''ownerFullName'', \<lparr>name = ''ownerFullName'', label = t ''Owner full name'',
        apiPropertyName = ''owner__extra_details__data__name'',
        filterable = True, orderable = True\<rparr>),
     (''ownerEmail'', \<lparr>name = ''ownerEmail'', label = t ''Owner email'',
        apiPropertyName = ''owner__email'', filterable = True, orderable = True\<rparr>),
     (''ownerOrganization'', \<lparr>name = ''ownerOrganization'', label = t ''Owner organization'',
        apiPropertyName = ''owner__extra_details__data__organization'',
        filterable = True, orderable = True\<rparr>),
     (''dateModified'', \<lparr>name = ''dateModified'', label = t ''Date modified'',
        apiPropertyName = ''date_modified__date'', filterable = True, orderable = True\<rparr>),
     (''dateDeployed'', \<lparr>name = ''dateDeployed'', label = t ''Date deployed'',
        apiPropertyName = ''date_deployed__date'', filterable = False, orderable = False\<rparr>),
     (''sector'', \<lparr>name = ''sector'', label = t ''Sector'',
        apiPropertyName = ''settings__sector'', filterable = True, orderable = True\<rparr>),
     (''countries'', \<lparr>name = ''countries'', label = t ''Countries'',
        apiPropertyName = ''settings__country_codes[]'', filterable = True, orderable = True\<rparr>),
     (''languages'', \<lparr>name = ''languages'', label = t ''Languages'',
        apiPropertyName = ''summary__languages[]'', filterable = True, orderable = True\<rparr>),
     (''submissions'', \<lparr>name = ''submissions'', label = t ''Submissions'',
        apiPropertyName = ''deployment__submission_count'',
        filterable = False, orderable = False\<rparr>)]"

definition DEFAULT_PROJECT_FIELDS :: "string list" where
  "DEFAULT_PROJECT_FIELDS =
    [''countries'', ''dateModified'', ''dateDeployed'', ''name'',
     ''ownerUsername'', ''status'', ''submissions'']"

text \<open>The keys of an object literal, in the order they were written.\<close>

definition keys :: "(string \<times> 'a) list \<Rightarrow> string list" where
  "keys tbl = map fst tbl"

section \<open>Bulk edit of submissions (modalForms/bulkEditSubmissionsForm.es6)\<close>

subsection \<open>Values and data\<close>

text \<open>
  The JavaScript values that reach the form as responses and overrides: a missing
  response is \<open>undefined\<close>, the text box hands over strings, and submission data may
  hold numbers. \<open>EMPTY_VALUE\<close> is the override that means "no answer".
\<close>

datatype jsval = Undefined | Null | Str string | Num int

definition EMPTY_VALUE :: jsval where
  "EMPTY_VALUE = Null"

text \<open>
  The \<open>overrides\<close> object is a plain object used as a dictionary from question name
  to override value. It has its own properties and a prototype, which is
  \<open>Object.prototype\<close> for an object written \<open>{}\<close> and can become \<open>null\<close>.
\<close>

datatype prototype = ObjectPrototype | NullPrototype

record jsobj =
  own :: "string \<rightharpoonup> jsval"
  proto :: prototype

definition emptyObject :: jsobj where
  "emptyObject = \<lparr>own = Map.empty, proto = ObjectPrototype\<rparr>"

text \<open>
  What a property read can give: a value of \<open>jsval\<close>, or something inherited from
  \<open>Object.prototype\<close>. \<open>Builtin k\<close> is what \<open>Object.prototype\<close> answers for the
  name \<open>k\<close>: one of its built-in functions, or, for \<open>__proto__\<close>, whose getter
  returns the prototype of the object that is read, \<open>Object.prototype\<close> itself. Such a
  value is an object or a function: it is not \<open>null\<close> and its \<open>typeof\<close> is not
  \<open>string\<close>.
\<close>

datatype anyval = Prim jsval | Builtin string

definition objectPrototypeMethods :: "string list" where
  "objectPrototypeMethods =
    [''constructor'', ''__defineGetter__'', ''__defineSetter__'', ''hasOwnProperty'',
     ''__lookupGetter__'', ''__lookupSetter__'', ''isPrototypeOf'',
     ''propertyIsEnumerable'', ''toString'', ''valueOf'', ''toLocaleString'']"

text \<open>
  The read \<open>obj[k]\<close>: an own property wins; otherwise the prototype is asked, and
  without a prototype, or for a name the prototype does not have, the result is
  \<open>undefined\<close>.
\<close>

definition prop_get :: "jsobj \<Rightarrow> string \<Rightarrow> anyval" where
  "prop_get obj k =
    (case own obj k of
       Some v \<Rightarrow> Prim v
     | None \<Rightarrow>
         (case proto obj of
            NullPrototype \<Rightarrow> Prim Undefined
          | ObjectPrototype \<Rightarrow>
              if k = ''__proto__'' \<or> k \<in> set objectPrototypeMethods
              then Builtin k
              else Prim Undefined))"

text \<open>
  The assignment \<open>obj[k] = v\<close> of a value of \<open>jsval\<close>. For every name but
  \<open>__proto__\<close> it creates or overwrites the own property; the functions of
  \<open>Object.prototype\<close> are writable data properties, which an assignment shadows. The
  name \<open>__proto__\<close> is an accessor of \<open>Object.prototype\<close>: on an object that
  inherits it and has no own property of that name, the assignment calls the setter,
  which makes the prototype \<open>null\<close> when \<open>v\<close> is \<open>null\<close>, does nothing for
  any other value of \<open>jsval\<close>, and in neither case creates a property.
\<close>

definition assign :: "jsobj \<Rightarrow> string \<Rightarrow> jsval \<Rightarrow> jsobj" where
  "assign obj k v =
    (if k = ''__proto__'' \<and> own obj k = None \<and> proto obj = ObjectPrototype
     then (if v = Null then obj\<lparr>proto := NullPrototype\<rparr> else obj)
     else obj\<lparr>own := (own obj)(k \<mapsto> v)\<rparr>)"

text \<open>\<open>delete obj[k]\<close> removes the own property, if there is one.\<close>

definition deleteProp :: "jsobj \<Rightarrow> string \<Rightarrow> jsobj" where
  "deleteProp obj k = obj\<lparr>own := (own obj)(k := None)\<rparr>"

text \<open>
  \<open>clonedeep\<close> is lodash's. For a plain object it makes a new object \<open>{}\<close> and
  copies the own properties to it one by one by assignment; so an own property named
  \<open>__proto__\<close>, where there is one, goes through \<open>assign\<close> on the new object.
\<close>

definition clonedeep :: "jsobj \<Rightarrow> jsobj" where
  "clonedeep obj =
    (let result = \<lparr>own = (own obj)(''__proto__'' := None), proto = ObjectPrototype\<rparr>
     in case own obj ''__proto__'' of
          None \<Rightarrow> result
        | Some v \<Rightarrow> assign result ''__proto__'' v)"

record item =
  sid :: nat
  value' :: jsval

record question = Named +
  selectedData :: "item list"

record asset =
  uid :: string

record props =
  asset :: asset
  selectedSubmissions :: "string list"
  totalSubmissions :: nat

record state =
  isPending :: bool
  overrides :: jsobj
  selectedQuestion :: "question option"
  selectedQuestionOverride :: anyval
  filterByName :: string
  filterByValue :: string

subsection \<open>The outside of the component\<close>

text \<open>
  Everything the component does to its surroundings is recorded: the calls to the
  callbacks in its props and to the \<open>bulkPatchValues\<close> action are appended to a
  trace, and the listeners it registers live in a table of subscriptions. A modal title
  is kept as the template that was filled in together with its arguments.
\<close>

datatype title = ListTitle nat nat | QuestionTitle string nat

datatype call =
    OnSetModalTitle title
  | OnModalClose
  | BulkPatchValues string "string list" jsobj
  | Unlisten nat

datatype channel = BulkPatchValuesCompleted | BulkPatchValuesFailed

datatype handler = OnBulkPatchValuesCompleted | OnBulkPatchValuesFailed

record outside =
  calls :: "call list"
  subscriptions :: "(nat \<times> channel \<times> handler) list"
  fresh :: nat

record component = outside +
  props :: props
  state :: state
  unlisteners :: "nat list"

datatype error = TypeError

text \<open>
  \<open>listen\<close> belongs to the action library, not to this repository. Its contract:
  it registers the callback on the channel and returns a function that removes exactly
  this registration. The returned function is identified by the number of the
  registration; \<open>unlisten\<close> is what calling it does.
\<close>

definition listen :: "channel \<Rightarrow> handler \<Rightarrow> component \<Rightarrow> nat \<times> component" where
  "listen ch h c =
    (fresh c, c\<lparr>subscriptions := subscriptions c @ [(fresh c, ch, h)],
                fresh := Suc (fresh c)\<rparr>)"

definition unlisten :: "nat \<Rightarrow> component \<Rightarrow> component" where
  "unlisten i c =
    c\<lparr>calls := calls c @ [Unlisten i],
      subscriptions := filter (\<lambda>s. fst s \<noteq> i) (subscriptions c)\<rparr>"

subsection \<open>BulkEditSubmissionsForm\<close>

text \<open>
  Each method takes the component and returns it updated; \<open>setState\<close> is the update
  of the named fields of \<open>state\<close>. A method that reads a property of
  \<open>selectedQuestion\<close> while it is \<open>null\<close> throws, which is the result
  \<open>Inl TypeError\<close>.
\<close>

definition constructor :: "props \<Rightarrow> outside \<Rightarrow> component" where
  "constructor p w =
    \<lparr>calls = calls w, subscriptions = subscriptions w, fresh = fresh w,
     props = p,
     state = \<lparr>isPending = False, overrides = emptyObject, selectedQuestion = None,
              selectedQuestionOverride = Prim Null, filterByName = [], filterByValue = []\<rparr>,
     unlisteners = []\<rparr>"

definition setModalTitleToList :: "component \<Rightarrow> component" where
  "setModalTitleToList c =
    c\<lparr>calls := calls c @
      [OnSetModalTitle (ListTitle (length (selectedSubmissions (props c)))
                                  (totalSubmissions (props c)))]\<rparr>"


definition componentDidMount :: "component \<Rightarrow> component" where
  "componentDidMount c =
    (let (u1, c1) = listen BulkPatchValuesCompleted OnBulkPatchValuesCompleted c;
         (u2, c2) = listen BulkPatchValuesFailed OnBulkPatchValuesFailed c1
     in setModalTitleToList (c2\<lparr>unlisteners := unlisteners c2 @ [u1, u2]\<rparr>))"

definition componentWillUnmount :: "component \<Rightarrow> component" where
  "componentWillUnmount c = fold unlisten (unlisteners c) c"

definition onBulkPatchValuesCompleted :: "component \<Rightarrow> component" where
  "onBulkPatchValuesCompleted c =
    (let c1 = c\<lparr>state := (state c)\<lparr>isPending := False\<rparr>\<rparr>
     in c1\<lparr>calls := calls c1 @ [OnModalClose]\<rparr>)"

definition onBulkPatchValuesFailed :: "component \<Rightarrow> component" where
  "onBulkPatchValuesFailed c = c\<lparr>state := (state c)\<lparr>isPending := False\<rparr>\<rparr>"

definition onRowOverrideChange :: "string \<Rightarrow> jsval \<Rightarrow> component \<Rightarrow> error + component" where
  "onRowOverrideChange questionName v c =
    (case selectedQuestion (state c) of
       None \<Rightarrow> Inl TypeError
     | Some q \<Rightarrow>
         if questionName = name q then
           if v = Undefined
           then Inr (c\<lparr>state := (state c)\<lparr>selectedQuestionOverride := Prim EMPTY_VALUE\<rparr>\<rparr>)
           else Inr (c\<lparr>state := (state c)\<lparr>selectedQuestionOverride := Prim v\<rparr>\<rparr>)
         else Inr c)"

definition onSubmit :: "component \<Rightarrow> component" where
  "onSubmit c =
    (let c1 = c\<lparr>state := (state c)\<lparr>isPending := True\<rparr>\<rparr>
     in c1\<lparr>calls := calls c1 @
          [BulkPatchValues (uid (asset (props c1))) (selectedSubmissions (props c1))
                           (overrides (state c1))]\<rparr>)"

definition onReset :: "component \<Rightarrow> component" where
  "onReset c = c\<lparr>state := (state c)\<lparr>overrides := emptyObject\<rparr>\<rparr>"

definition onFilterByNameChange :: "string \<Rightarrow> component \<Rightarrow> component" where
  "onFilterByNameChange newFilter c = c\<lparr>state := (state c)\<lparr>filterByName := newFilter\<rparr>\<rparr>"

definition onFilterByValueChange :: "string \<Rightarrow> component \<Rightarrow> component" where
  "onFilterByValueChange newFilter c = c\<lparr>state := (state c)\<lparr>filterByValue := newFilter\<rparr>\<rparr>"


definition goBackToList :: "component \<Rightarrow> component" where
  "goBackToList c =
    setModalTitleToList
      (c\<lparr>state := (state c)\<lparr>selectedQuestion := None,
            selectedQuestionOverride := Prim Null\<rparr>\<rparr>)"

text \<open>
  In \<open>saveOverride\<close> the test \<open>=== EMPTY_VALUE\<close> and the test for a string of length
  at least 1 can only succeed for a value of \<open>jsval\<close>; an inherited object or function
  fails both and takes the \<open>delete\<close> branch.
\<close>

definition saveOverride :: "component \<Rightarrow> error + component" where
  "saveOverride c =
    (case selectedQuestion (state c) of
       None \<Rightarrow> Inl TypeError
     | Some q \<Rightarrow>
         let newOverrides = clonedeep (overrides (state c));
             newOverrides' =
               (case selectedQuestionOverride (state c) of
                  Prim v \<Rightarrow>
                    if v = EMPTY_VALUE \<or>
                       (case v of Str s \<Rightarrow> length s \<ge> 1 | _ \<Rightarrow> False)
                    then assign newOverrides (name q) v
                    else deleteProp newOverrides (name q)
                | Builtin b \<Rightarrow> deleteProp newOverrides (name q))
         in Inr (goBackToList (c\<lparr>state := (state c)\<lparr>overrides := newOverrides'\<rparr>\<rparr>)))"

subsection \<open>BulkEditRowForm\<close>

text \<open>
  The row form is rendered for the selected question; its \<open>onChange\<close> prop is the
  parent's \<open>onRowOverrideChange\<close>, so its methods act on the parent component.
\<close>

record rowProps =
  question :: question
  overrideData :: anyval
  originalData :: "item list"

definition renderSelectedQuestion :: "component \<Rightarrow> error + rowProps" where
  "renderSelectedQuestion c =
    (case selectedQuestion (state c) of
       None \<Rightarrow> Inl TypeError
     | Some q \<Rightarrow> Inr \<lparr>question = q,
                      overrideData = selectedQuestionOverride (state c),
                      originalData = selectedData q\<rparr>)"

definition onChange :: "rowProps \<Rightarrow> jsval \<Rightarrow> component \<Rightarrow> error + component" where
  "onChange rp newValue c = onRowOverrideChange (name (question rp)) newValue c"

text \<open>
  \<open>renderResponseRow\<close> binds the Select button of a response to \<open>onChange\<close> with
  \<open>responseValue\<close>: the response itself, or \<open>EMPTY_VALUE\<close> for the missing one.
\<close>

definition responseValue :: "jsval \<Rightarrow> jsval" where
  "responseValue response = (if response = Undefined then EMPTY_VALUE else response)"

definition selectResponse :: "rowProps \<Rightarrow> jsval \<Rightarrow> component \<Rightarrow> error + component" where
  "selectResponse rp response c = onChange rp (responseValue response) c"

text \<open>
  \<open>getUniqueResponses\<close> counts into a \<open>Map\<close>, which keeps its keys in the order of
  first insertion: an association list, where \<open>set\<close> on a key that is present
  replaces the value in place and otherwise appends. The response values are the
  primitives of \<open>jsval\<close>, which a \<open>Map\<close> compares by value. The entries are then
  sorted with the comparator \<open>b[1] - a[1]\<close>, that is by descending count; the sort is
  stable.
\<close>

definition countResponse :: "item \<Rightarrow> (jsval \<times> nat) list \<Rightarrow> (jsval \<times> nat) list" where
  "countResponse it uniqueResponses =
    (case map_of uniqueResponses (value' it) of
       Some n \<Rightarrow> AList.update (value' it) (n + 1) uniqueResponses
     | None \<Rightarrow> AList.update (value' it) 1 uniqueResponses)"

definition getUniqueResponses :: "rowProps \<Rightarrow> (jsval \<times> nat) list" where
  "getUniqueResponses rp =
    sort_key (\<lambda>e. - int (snd e)) (fold countResponse (originalData rp) [])"

section \<open>The overwritten \<open>contains\<close> command (cypress/support/commands.js)\<close>






section \<open>Properties of the static tables\<close>

text \<open>
  C3. The query templates of the backend mini-language: the \<open>contains\<close> condition has
  the template \<open><field>__icontains:<term>\<close> and the \<open>isNot\<close> condition has
  \<open>NOT <field>__iexact:<term>\<close>, character for character.
\<close>

theorem filterQuery_contains_isNot:
  "map_option filterQuery (map_of (FILTER_CONDITIONS t) ''contains'') =
     Some ''<field>__icontains:<term>'' \<and>
   map_option filterQuery (map_of (FILTER_CONDITIONS t) ''isNot'') =
     Some ''NOT <field>__iexact:<term>''"
  by (simp add: FILTER_CONDITIONS_def)

text \<open>
  C5. In every entry of \<open>FILTER_CONDITIONS\<close>, \<open>requiresValue\<close> is true exactly when
  the \<open>filterQuery\<close> template contains the placeholder \<open><term>\<close> as a contiguous
  piece of text.
\<close>

theorem requiresValue_iff_term_placeholder:
  "\<forall>(c, d) \<in> set (FILTER_CONDITIONS t).
     requiresValue d \<longleftrightarrow> sublist ''<term>'' (filterQuery d)"
  by (simp add: FILTER_CONDITIONS_def sublist_Cons_right)

theorem requiresValue_iff_term_placeholder_witness:
  "(''isEmpty'', \<lparr>name = ''isEmpty'', label = ''Is empty'', requiresValue = False,
                  filterQuery = ''<field>:\"\"''\<rparr>) \<in> set (FILTER_CONDITIONS (\<lambda>s. s)) \<and>
   \<not> sublist ''<term>'' ''<field>:\"\"'' \<and>
   (''endsWith'', \<lparr>name = ''endsWith'', label = ''Ends with'', requiresValue = True,
                   filterQuery = ''<field>__iendswith:<term>''\<rparr>)
      \<in> set (FILTER_CONDITIONS (\<lambda>s. s)) \<and>
   sublist ''<term>'' ''<field>__iendswith:<term>''"
proof -
  have isEmpty:
    "(''isEmpty'', \<lparr>name = ''isEmpty'', label = ''Is empty'', requiresValue = False,
                    filterQuery = ''<field>:\"\"''\<rparr>) \<in> set (FILTER_CONDITIONS (\<lambda>s. s))"
    by (simp add: FILTER_CONDITIONS_def)
  have endsWith:
    "(''endsWith'', \<lparr>name = ''endsWith'', label = ''Ends with'', requiresValue = True,
                     filterQuery = ''<field>__iendswith:<term>''\<rparr>)
       \<in> set (FILTER_CONDITIONS (\<lambda>s. s))"
    by (simp add: FILTER_CONDITIONS_def)
  note all = requiresValue_iff_term_placeholder [of "\<lambda>s. s"]
  from all isEmpty have "\<not> sublist ''<term>'' ''<field>:\"\"''"
    by fastforce
  moreover from all endsWith have "sublist ''<term>'' ''<field>__iendswith:<term>''"
    by fastforce
  ultimately show ?thesis
    using isEmpty endsWith by blast
qed

text \<open>
  C6. Both registries are consistent key-value tables: under every key of
  \<open>PROJECT_FIELDS\<close>, and under every key of \<open>FILTER_CONDITIONS\<close>, the entry found has
  that key as its \<open>name\<close>; and every element of \<open>DEFAULT_PROJECT_FIELDS\<close> is a key of
  \<open>PROJECT_FIELDS\<close>.
\<close>

theorem registries_consistent:
  "(\<forall>k \<in> set (keys (PROJECT_FIELDS t)).
      \<exists>d. map_of (PROJECT_FIELDS t) k = Some d \<and> name d = k) \<and>
   (\<forall>c \<in> set (keys (FILTER_CONDITIONS t)).
      \<exists>d. map_of (FILTER_CONDITIONS t) c = Some d \<and> name d = c) \<and>
   set DEFAULT_PROJECT_FIELDS \<subseteq> set (keys (PROJECT_FIELDS t))"
  by (simp add: PROJECT_FIELDS_def FILTER_CONDITIONS_def DEFAULT_PROJECT_FIELDS_def keys_def)

theorem registries_consistent_witness:
  "''dateDeployed'' \<in> set (keys (PROJECT_FIELDS (\<lambda>s. s))) \<and>
   (\<exists>d. map_of (PROJECT_FIELDS (\<lambda>s. s)) ''dateDeployed'' = Some d \<and>
        name d = ''dateDeployed'') \<and>
   ''doesNotContain'' \<in> set (keys (FILTER_CONDITIONS (\<lambda>s. s))) \<and>
   (\<exists>d. map_of (FILTER_CONDITIONS (\<lambda>s. s)) ''doesNotContain'' = Some d \<and>
        name d = ''doesNotContain'') \<and>
   ''dateDeployed'' \<in> set DEFAULT_PROJECT_FIELDS"
proof -
  have k1: "''dateDeployed'' \<in> set (keys (PROJECT_FIELDS (\<lambda>s. s)))"
    by (simp add: PROJECT_FIELDS_def keys_def)
  have k2: "''doesNotContain'' \<in> set (keys (FILTER_CONDITIONS (\<lambda>s. s)))"
    by (simp add: FILTER_CONDITIONS_def keys_def)
  have k3: "''dateDeployed'' \<in> set DEFAULT_PROJECT_FIELDS"
    by (simp add: DEFAULT_PROJECT_FIELDS_def)
  from registries_consistent [of "\<lambda>s. s"] k1 k2 k3 show ?thesis
    by blast
qed

section \<open>Properties of the bulk-edit form\<close>

lemma no_answer_override_saved_for_other_names:
  assumes "selectedQuestion (state c) = Some q" and "name q \<noteq> ''__proto__''"
  shows "\<exists>c1 c2 rp c1' c2'.
           onRowOverrideChange (name q) Undefined c = Inr c1 \<and>
           saveOverride c1 = Inr c2 \<and>
           own (overrides (state c2)) (name q) = Some EMPTY_VALUE \<and>
           prop_get (overrides (state c2)) (name q) = Prim EMPTY_VALUE \<and>
           renderSelectedQuestion c = Inr rp \<and>
           selectResponse rp Undefined c = Inr c1' \<and>
           saveOverride c1' = Inr c2' \<and>
           own (overrides (state c2')) (name q) = Some EMPTY_VALUE"
  using assms
  by (simp add: onRowOverrideChange_def saveOverride_def renderSelectedQuestion_def
      selectResponse_def onChange_def responseValue_def goBackToList_def
      setModalTitleToList_def EMPTY_VALUE_def prop_get_def assign_def clonedeep_def
      Let_def split: option.splits)


text \<open>
  C2. When \<open>bulkPatchValues\<close> fails, the handler sets \<open>isPending\<close> to false and does
  nothing else: it makes no call at all, so \<open>onModalClose\<close> is not called, and every
  other field of the state (the overrides among them) and of the component stays as it
  was. When the action completes, the handler sets \<open>isPending\<close> to false and calls
  \<open>onModalClose\<close>.
\<close>

theorem failed_only_clears_pending:
  "isPending (state (onBulkPatchValuesFailed c)) = False \<and>
   (state (onBulkPatchValuesFailed c))\<lparr>isPending := b\<rparr> = (state c)\<lparr>isPending := b\<rparr> \<and>
   overrides (state (onBulkPatchValuesFailed c)) = overrides (state c) \<and>
   calls (onBulkPatchValuesFailed c) = calls c \<and>
   (onBulkPatchValuesFailed c)\<lparr>state := st\<rparr> = c\<lparr>state := st\<rparr> \<and>
   isPending (state (onBulkPatchValuesCompleted c)) = False \<and>
   calls (onBulkPatchValuesCompleted c) = calls c @ [OnModalClose]"
  by (simp add: onBulkPatchValuesFailed_def onBulkPatchValuesCompleted_def)

text \<open>
  C4. \<open>onSubmit\<close> sets \<open>isPending\<close> to true and makes exactly one call: the
  \<open>bulkPatchValues\<close> action with the uid of the asset, the whole list of selected
  submissions as it stands in the props, and the current overrides.
\<close>

theorem onSubmit_patches_all_selected:
  "isPending (state (onSubmit c)) = True \<and>
   calls (onSubmit c) =
     calls c @ [BulkPatchValues (uid (asset (props c))) (selectedSubmissions (props c))
                                (overrides (state c))]"
  by (simp add: onSubmit_def)

lemma fold_unlisten_calls: "calls (fold unlisten us c) = calls c @ map Unlisten us"
  by (induction us arbitrary: c) (simp_all add: unlisten_def)

lemma fold_unlisten_subscriptions:
  "subscriptions (fold unlisten us c) = filter (\<lambda>s. fst s \<notin> set us) (subscriptions c)"
  by (induction us arbitrary: c) (simp_all add: unlisten_def conj_commute)

text \<open>
  C7. Unmounting undoes every subscription made at mount. \<open>componentDidMount\<close> adds
  two subscriptions, one per channel, and pushes their two unlisteners;
  \<open>componentWillUnmount\<close> calls every element of \<open>unlisteners\<close> in order and nothing
  else, which removes the subscriptions they belong to. For a component that is
  constructed, mounted and unmounted, each of the two unlisteners is called exactly once
  by the unmount and no subscription made at mount is left.
\<close>

theorem unmount_calls_every_unlistener_once:
  "unlisteners (componentDidMount c) = unlisteners c @ [fresh c, Suc (fresh c)] \<and>
   subscriptions (componentDidMount c) =
     subscriptions c @ [(fresh c, BulkPatchValuesCompleted, OnBulkPatchValuesCompleted),
                        (Suc (fresh c), BulkPatchValuesFailed, OnBulkPatchValuesFailed)] \<and>
   calls (componentWillUnmount c) = calls c @ map Unlisten (unlisteners c) \<and>
   subscriptions (componentWillUnmount c) =
     filter (\<lambda>s. fst s \<notin> set (unlisteners c)) (subscriptions c) \<and>
   (let c0 = constructor p w; c1 = componentDidMount c0; c2 = componentWillUnmount c1
    in calls c2 = calls c1 @ [Unlisten (fresh w), Unlisten (Suc (fresh w))] \<and>
       (\<forall>u \<in> set (unlisteners c1).
          count_list (drop (length (calls c1)) (calls c2)) (Unlisten u) = 1) \<and>
       (\<forall>s \<in> set (subscriptions c2). fst s \<notin> set (unlisteners c1)))"
  by (simp add: componentDidMount_def componentWillUnmount_def listen_def
      setModalTitleToList_def fold_unlisten_calls fold_unlisten_subscriptions
      constructor_def Let_def)

theorem unmount_calls_every_unlistener_once_witness:
  "(let w = \<lparr>calls = [], subscriptions = [(0, BulkPatchValuesFailed, OnBulkPatchValuesFailed)],
             fresh = 1\<rparr>;
        c1 = componentDidMount
               (constructor \<lparr>asset = \<lparr>uid = ''aXb''\<rparr>, selectedSubmissions = [''1''],
                             totalSubmissions = 3\<rparr> w);
        c2 = componentWillUnmount c1
    in 2 \<in> set (unlisteners c1) \<and>
       count_list (drop (length (calls c1)) (calls c2)) (Unlisten 2) = 1 \<and>
       (0, BulkPatchValuesFailed, OnBulkPatchValuesFailed) \<in> set (subscriptions c2) \<and>
       0 \<notin> set (unlisteners c1))"
proof -
  let ?w = "\<lparr>calls = [], subscriptions = [(0, BulkPatchValuesFailed, OnBulkPatchValuesFailed)],
             fresh = 1\<rparr>"
  let ?p = "\<lparr>asset = \<lparr>uid = ''aXb''\<rparr>, selectedSubmissions = [''1''], totalSubmissions = 3\<rparr>"
  let ?c0 = "constructor ?p ?w"
  let ?c1 = "componentDidMount ?c0"
  note mount = unmount_calls_every_unlistener_once [of ?c0 ?p ?w]
  note unmount = unmount_calls_every_unlistener_once [of ?c1 ?p ?w]
  have u: "unlisteners ?c1 = [1, 2]"
    using mount by (simp add: constructor_def)
  have m: "subscriptions ?c1 =
             [(0, BulkPatchValuesFailed, OnBulkPatchValuesFailed),
              (1, BulkPatchValuesCompleted, OnBulkPatchValuesCompleted),
              (2, BulkPatchValuesFailed, OnBulkPatchValuesFailed)]"
    using mount by (simp add: constructor_def)
  have s: "subscriptions (componentWillUnmount ?c1) =
             [(0, BulkPatchValuesFailed, OnBulkPatchValuesFailed)]"
    using unmount u m by simp
  have n: "count_list (drop (length (calls ?c1)) (calls (componentWillUnmount ?c1)))
                      (Unlisten 2) = 1"
    using mount u by (simp add: Let_def)
  from u s n show ?thesis
    by (simp add: Let_def)
qed

lemma saveOverride_other_names:
  assumes "selectedQuestion (state c) = Some q" and "name q \<noteq> ''__proto__''"
  shows "\<exists>c'. saveOverride c = Inr c' \<and>
     (case selectedQuestionOverride (state c) of
        Prim v \<Rightarrow>
          if v = Null \<or> (\<exists>s. v = Str s \<and> length s \<ge> 1)
          then own (overrides (state c')) (name q) = Some v
          else own (overrides (state c')) (name q) = None
      | Builtin b \<Rightarrow> own (overrides (state c')) (name q) = None) \<and>
     (\<forall>k. k \<noteq> name q \<and> k \<noteq> ''__proto__'' \<longrightarrow>
          own (overrides (state c')) k = own (overrides (state c)) k)"
  using assms
  by (auto simp add: saveOverride_def goBackToList_def setModalTitleToList_def
      EMPTY_VALUE_def assign_def deleteProp_def clonedeep_def Let_def
      split: anyval.splits jsval.splits option.splits)

lemma saveOverride_never_stores_empty_or_undefined:
  assumes "selectedQuestion (state c) = Some q"
    and "\<forall>k. own (overrides (state c)) k \<noteq> Some Undefined \<and>
             own (overrides (state c)) k \<noteq> Some (Str [])"
  shows "\<exists>c'. saveOverride c = Inr c' \<and>
     (\<forall>k. own (overrides (state c')) k \<noteq> Some Undefined \<and>
          own (overrides (state c')) k \<noteq> Some (Str []))"
  using assms
  by (auto simp add: saveOverride_def goBackToList_def setModalTitleToList_def
      EMPTY_VALUE_def assign_def deleteProp_def clonedeep_def Let_def
      split: anyval.splits jsval.splits option.splits)


lemma map_of_countResponse:
  "map_of (countResponse it acc) =
     (map_of acc)(value' it \<mapsto> (case map_of acc (value' it) of None \<Rightarrow> 1 | Some n \<Rightarrow> n + 1))"
  by (simp add: countResponse_def update_conv' split: option.splits)

lemma distinct_countResponse:
  "distinct (map fst acc) \<Longrightarrow> distinct (map fst (countResponse it acc))"
  by (simp add: countResponse_def distinct_update split: option.splits)

lemma sum_update_absent:
  "map_of al k = None \<Longrightarrow>
   sum_list (map snd (AList.update k v al)) = sum_list (map snd al) + (v::nat)"
  by (induction al) (auto split: if_splits)

lemma sum_update_present:
  "map_of al k = Some n \<Longrightarrow>
   sum_list (map snd (AList.update k (Suc n) al)) = Suc (sum_list (map snd al))"
  by (induction al) (auto split: if_splits)

lemma sum_countResponse:
  "sum_list (map snd (countResponse it acc)) = sum_list (map snd acc) + 1"
  by (simp add: countResponse_def sum_update_absent sum_update_present split: option.splits)

lemma distinct_fold_countResponse:
  "distinct (map fst acc) \<Longrightarrow> distinct (map fst (fold countResponse xs acc))"
  by (induction xs arbitrary: acc) (simp_all add: distinct_countResponse)

lemma sum_fold_countResponse:
  "sum_list (map snd (fold countResponse xs acc)) = sum_list (map snd acc) + length xs"
  by (induction xs arbitrary: acc) (simp_all add: sum_countResponse)

lemma map_of_fold_countResponse:
  "map_of (fold countResponse xs acc) v =
     (case map_of acc v of
        None \<Rightarrow> if v \<in> value' ` set xs then Some (count_list (map value' xs) v) else None
      | Some m \<Rightarrow> Some (m + count_list (map value' xs) v))"
proof (induction xs arbitrary: acc)
  case Nil
  show ?case by (simp split: option.splits)
next
  case (Cons x xs)
  show ?case
    by (simp add: Cons.IH map_of_countResponse split: option.splits)
qed

lemma sum_insort_key:
  "sum_list (map g (insort_key f x xs)) = (g x :: nat) + sum_list (map g xs)"
  by (induction xs) simp_all

lemma sum_sort_key: "sum_list (map g (sort_key f xs)) = (sum_list (map g xs) :: nat)"
  by (induction xs) (simp_all add: sum_insort_key)

lemma distinct_keys_sort_key:
  "distinct (map fst xs) \<Longrightarrow> distinct (map fst (sort_key f xs))"
  by (simp add: distinct_map)

lemma map_of_sort_key:
  assumes "distinct (map fst xs)"
  shows "map_of (sort_key f xs) = map_of xs"
proof -
  have "distinct (map fst (sort_key f xs))"
    using assms by (rule distinct_keys_sort_key)
  moreover have "set (sort_key f xs) = set xs"
    by simp
  ultimately show ?thesis
    using assms by (simp add: map_of_inject_set)
qed

text \<open>
  C9. For every list \<open>originalData\<close>, the result of \<open>getUniqueResponses\<close> has one
  entry for each distinct response value of the list and no other entry, the count in
  an entry is the number of times its value occurs in the list, the counts add up to
  the length of the list, and the counts never increase from one entry to the next.
\<close>

theorem getUniqueResponses_counts_sorted:
  "let r = getUniqueResponses rp; vs = map value' (originalData rp) in
     distinct (map fst r) \<and>
     set (map fst r) = set vs \<and>
     (\<forall>(v, n) \<in> set r. n = count_list vs v) \<and>
     sum_list (map snd r) = length vs \<and>
     sorted_wrt (\<ge>) (map snd r)"
proof -
  define l where "l = fold countResponse (originalData rp) []"
  define vs where "vs = map value' (originalData rp)"
  define r where "r = getUniqueResponses rp"
  have r: "r = sort_key (\<lambda>e. - int (snd e)) l"
    by (simp add: r_def l_def getUniqueResponses_def)
  have dl: "distinct (map fst l)"
    unfolding l_def by (rule distinct_fold_countResponse) simp
  have dr: "distinct (map fst r)"
    unfolding r using dl by (rule distinct_keys_sort_key)
  have "map_of r = map_of l"
    unfolding r using dl by (rule map_of_sort_key)
  then have mo: "map_of r v = (if v \<in> set vs then Some (count_list vs v) else None)" for v
    by (simp add: l_def vs_def map_of_fold_countResponse)
  have ks: "set (map fst r) = set vs"
  proof -
    have "dom (map_of r) = set vs"
      by (auto simp: mo dom_def)
    then show ?thesis
      by (simp add: dom_map_of_conv_image_fst)
  qed
  have cnt: "\<forall>(v, n) \<in> set r. n = count_list vs v"
  proof clarify
    fix v n assume "(v, n) \<in> set r"
    then have "map_of r v = Some n"
      using dr by simp
    then show "n = count_list vs v"
      by (simp add: mo split: if_splits)
  qed
  have sm: "sum_list (map snd r) = length vs"
    unfolding r by (simp add: sum_sort_key l_def vs_def sum_fold_countResponse)
  have "sorted (map (\<lambda>e. - int (snd e)) r)"
    unfolding r by (rule sorted_sort_key)
  then have srt: "sorted_wrt (\<ge>) (map snd r)"
    by (simp add: sorted_map sorted_wrt_map)
  show ?thesis
    using dr ks cnt sm srt unfolding r_def vs_def Let_def by blast
qed

theorem getUniqueResponses_counts_sorted_witness:
  "(let rp = \<lparr>question = \<lparr>name = ''age'', label = ''Age'', selectedData = []\<rparr>,
              overrideData = Prim Undefined,
              originalData = [\<lparr>sid = 1, value' = Str ''a''\<rparr>, \<lparr>sid = 2, value' = Undefined\<rparr>,
                              \<lparr>sid = 3, value' = Str ''b''\<rparr>, \<lparr>sid = 4, value' = Undefined\<rparr>]\<rparr>
    in getUniqueResponses rp = [(Undefined, 2), (Str ''a'', 1), (Str ''b'', 1)] \<and>
       (Undefined, 2) \<in> set (getUniqueResponses rp) \<and>
       2 = count_list (map value' (originalData rp)) Undefined \<and>
       sum_list (map snd (getUniqueResponses rp)) = 4)"
proof -
  let ?rp = "\<lparr>question = \<lparr>name = ''age'', label = ''Age'', selectedData = []\<rparr>,
              overrideData = Prim Undefined,
              originalData = [\<lparr>sid = 1, value' = Str ''a''\<rparr>, \<lparr>sid = 2, value' = Undefined\<rparr>,
                              \<lparr>sid = 3, value' = Str ''b''\<rparr>, \<lparr>sid = 4, value' = Undefined\<rparr>]\<rparr>"
  have r: "getUniqueResponses ?rp = [(Undefined, 2), (Str ''a'', 1), (Str ''b'', 1)]"
    by (simp add: getUniqueResponses_def countResponse_def)
  have m: "(Undefined, 2) \<in> set (getUniqueResponses ?rp)"
    unfolding r by simp
  from getUniqueResponses_counts_sorted [of ?rp] m
  have "2 = count_list (map value' (originalData ?rp)) Undefined"
    unfolding Let_def by fast
  moreover from getUniqueResponses_counts_sorted [of ?rp]
  have "sum_list (map snd (getUniqueResponses ?rp)) = 4"
    unfolding Let_def by simp
  ultimately show ?thesis
    unfolding Let_def using r m by blast
qed

section \<open>Properties of the overwritten \<open>contains\<close> command\<close>




end
